theory Spec2Isabelle
  imports Complex_Main
begin

section \<open>JavaScript string primitives used by the routes\<close>

text \<open>
  A JavaScript string is modelled as a \<^typ>\<open>string\<close>: one \<^typ>\<open>char\<close> per code unit,
  for code units up to 0xFF. The line feed is \<open>CHR 0x0A\<close>, written
  \<open>CHR ''\<newline>''\<close>.
\<close>

text \<open>
  The characters matched by the regular-expression class \<^verbatim>\<open>\s\<close> and removed by
  \<^verbatim>\<open>String.prototype.trim\<close>: TAB, LF, VT, FF, CR, SPACE and NBSP (the members of
  the class below 0x100).
\<close>

definition isWhiteSpace :: "char \<Rightarrow> bool" where
  "isWhiteSpace c \<longleftrightarrow>
     c \<in> {CHR 0x09, CHR 0x0A, CHR 0x0B, CHR 0x0C, CHR 0x0D, CHR 0x20, CHR 0xA0}"

text \<open>\<^verbatim>\<open>s.trim()\<close>\<close>

definition trim :: "string \<Rightarrow> string" where
  "trim s = rev (dropWhile isWhiteSpace (rev (dropWhile isWhiteSpace s)))"

text \<open>\<^verbatim>\<open>s.startsWith(p)\<close>\<close>

definition startsWith :: "string \<Rightarrow> string \<Rightarrow> bool" where
  "startsWith p s \<longleftrightarrow> take (length p) s = p"

text \<open>\<^verbatim>\<open>s.includes(p)\<close>\<close>

fun includesStr :: "string \<Rightarrow> string \<Rightarrow> bool" where
  "includesStr p [] = (p = [])"
| "includesStr p (c # s) = (startsWith p (c # s) \<or> includesStr p s)"

text \<open>
  \<^verbatim>\<open>s.replace(pat, rep)\<close> with a string pattern: only the first occurrence is
  replaced.
\<close>

fun replaceFirst :: "string \<Rightarrow> string \<Rightarrow> string \<Rightarrow> string" where
  "replaceFirst pat rep [] = (if pat = [] then rep else [])"
| "replaceFirst pat rep (c # s) =
     (if startsWith pat (c # s) then rep @ drop (length pat) (c # s)
      else c # replaceFirst pat rep s)"

text \<open>
  \<^verbatim>\<open>s.split(sep)\<close> with a non-empty string separator (the routes split on
  \<^verbatim>\<open>'\n'\<close> and \<^verbatim>\<open>'\n\n'\<close> only): the text is cut at each occurrence of the
  separator, found from left to right without overlap; \<open>cur\<close> holds the current
  piece, reversed.
\<close>

function splitFrom :: "string \<Rightarrow> string \<Rightarrow> string \<Rightarrow> string list" where
  "splitFrom sep cur [] = [rev cur]"
| "splitFrom sep cur (c # s) =
     (if sep \<noteq> [] \<and> startsWith sep (c # s)
      then rev cur # splitFrom sep [] (drop (length sep) (c # s))
      else splitFrom sep (c # cur) s)"
  by pat_completeness auto
termination
  by (relation "measure (\<lambda>(sep, cur, s). length s)") auto

definition splitStr :: "string \<Rightarrow> string \<Rightarrow> string list" where
  "splitStr sep s = splitFrom sep [] s"

text \<open>\<^verbatim>\<open>parts.join(sep)\<close>\<close>

fun join :: "string \<Rightarrow> string list \<Rightarrow> string" where
  "join sep [] = []"
| "join sep [p] = p"
| "join sep (p # q # ps) = p @ sep @ join sep (q # ps)"

text \<open>
  \<^verbatim>\<open>s.split(/\s+/)\<close>: the text is cut at each maximal run of white space. A run at
  the start or at the end of the text leaves an empty piece there, and the empty text
  gives the single piece \<open>''''\<close>.
\<close>

function splitWsFrom :: "string \<Rightarrow> string \<Rightarrow> string list" where
  "splitWsFrom cur [] = [rev cur]"
| "splitWsFrom cur (c # s) =
     (if isWhiteSpace c then rev cur # splitWsFrom [] (dropWhile isWhiteSpace s)
      else splitWsFrom (c # cur) s)"
  by pat_completeness auto
termination
  by (relation "measure (\<lambda>(cur, s). length s)")
     (auto simp: length_dropWhile_le less_Suc_eq_le)

definition splitWhiteSpace :: "string \<Rightarrow> string list" where
  "splitWhiteSpace s = splitWsFrom [] s"

section \<open>Output parser\<close>

text \<open>The object \<^verbatim>\<open>{ title, content }\<close> returned by \<^verbatim>\<open>parseGeneratedContent\<close>.\<close>

record parsed =
  parsedTitle :: string
  parsedContent :: string

text \<open>
  One iteration of the \<^verbatim>\<open>for (const line of lines)\<close> loop, on the loop's three
  variables \<^verbatim>\<open>title\<close>, \<^verbatim>\<open>articleContent\<close> and \<^verbatim>\<open>isContent\<close>.
\<close>

definition parseLine :: "string \<times> string \<times> bool \<Rightarrow> string \<Rightarrow> string \<times> string \<times> bool" where
  "parseLine st line =
     (case st of (ttl, articleContent, isContent) \<Rightarrow>
        if startsWith ''TITLE:'' line
        then (trim (replaceFirst ''TITLE:'' [] line), articleContent, isContent)
        else if startsWith ''CONTENT:'' line then (ttl, articleContent, True)
        else if isContent then (ttl, articleContent @ line @ ''\<newline>'', isContent)
        else (ttl, articleContent, isContent))"

definition parseLines :: "string list \<Rightarrow> string \<times> string \<times> bool" where
  "parseLines lines = foldl parseLine ([], [], False) lines"

text \<open>
  \<^verbatim>\<open>x || y\<close> on strings: the empty string is the only falsy string.
\<close>

definition orElse :: "string \<Rightarrow> string \<Rightarrow> string" where
  "orElse x y = (if x = [] then y else x)"

definition parseGeneratedContent :: "string \<Rightarrow> parsed" where
  "parseGeneratedContent raw =
     (case parseLines (splitStr ''\<newline>'' raw) of (ttl, articleContent, isContent) \<Rightarrow>
        let (ttl, articleContent) =
              (if ttl = [] \<and> articleContent = []
               then (let parts = splitStr ''\<newline>\<newline>'' raw
                     in (orElse (case parts of [] \<Rightarrow> [] | p # ps \<Rightarrow> p) ''Generated Article'',
                         orElse (join ''\<newline>\<newline>'' (drop 1 parts)) raw))
               else (ttl, articleContent))
        in \<lparr> parsedTitle = orElse ttl ''Generated Article'',
             parsedContent = orElse (trim articleContent) raw \<rparr>)"


section \<open>Request values and their truthiness\<close>

text \<open>
  A field of a JSON request body that holds a string is a \<^typ>\<open>string option\<close>:
  \<open>None\<close> when the field is absent (\<^verbatim>\<open>undefined\<close>). \<^verbatim>\<open>if (x)\<close> takes the branch
  for a non-empty string, \<^verbatim>\<open>true\<close> and a non-zero number only.
\<close>

definition truthyStr :: "string option \<Rightarrow> bool" where
  "truthyStr x = (case x of None \<Rightarrow> False | Some s \<Rightarrow> s \<noteq> [])"

definition truthyBool :: "bool option \<Rightarrow> bool" where
  "truthyBool x = (case x of None \<Rightarrow> False | Some b \<Rightarrow> b)"

definition truthyInt :: "int option \<Rightarrow> bool" where
  "truthyInt x = (case x of None \<Rightarrow> False | Some n \<Rightarrow> n \<noteq> 0)"

text \<open>What a template literal \<^verbatim>\<open>`${x}`\<close> prints.\<close>

definition showStr :: "string option \<Rightarrow> string" where
  "showStr x = (case x of None \<Rightarrow> ''undefined'' | Some s \<Rightarrow> s)"

definition showBool :: "bool option \<Rightarrow> string" where
  "showBool x = (case x of None \<Rightarrow> ''undefined'' | Some b \<Rightarrow> if b then ''true'' else ''false'')"

definition digitChar :: "nat \<Rightarrow> char" where
  "digitChar d = char_of (48 + d)"

function showNat :: "nat \<Rightarrow> string" where
  "showNat n = (if n < 10 then [digitChar n] else showNat (n div 10) @ [digitChar (n mod 10)])"
  by pat_completeness auto
termination
  by (relation "measure id") auto

text \<open>
  An integer in decimal. This is what \<^verbatim>\<open>`${n}`\<close> prints for an integer \<open>n\<close> of
  magnitude at most \<open>2^53\<close>; a JavaScript number does not hold every integer beyond
  that, and prints the ones it holds with their significant digits only.
\<close>

definition showInt :: "int \<Rightarrow> string" where
  "showInt n = (if n < 0 then CHR ''-'' # showNat (nat (- n)) else showNat (nat n))"

section \<open>Prompt builder\<close>

text \<open>
  The writing style of \<^verbatim>\<open>models/User.js\<close> and \<^verbatim>\<open>models/Article.js\<close>; a field
  that the object does not have is \<open>None\<close>, and \<open>styleStructure\<close> is the field
  \<^verbatim>\<open>structure\<close>.
\<close>

record writing_style =
  voice :: "string option"
  complexity :: "string option"
  styleStructure :: "string option"
  examples :: "bool option"
  quotes :: "bool option"
  callToAction :: "bool option"
  customInstructions :: "string option"

definition formatInstruction :: string where
  "formatInstruction =
     ''\<newline>\<newline>Format the response as follows:\<newline>TITLE: [Your article title here]\<newline>\<newline>CONTENT:\<newline>[Your article content here]\<newline>\<newline>Make sure the content is engaging, informative, and well-structured with proper paragraphs, headings, and bullet points where appropriate.''"

text \<open>
  \<^verbatim>\<open>buildArticlePrompt\<close>: each \<^verbatim>\<open>prompt += ...\<close> of the source is one rebinding of
  \<open>prompt\<close>.
\<close>

definition buildArticlePrompt ::
  "string \<Rightarrow> string \<Rightarrow> writing_style option \<Rightarrow> int \<Rightarrow> string option \<Rightarrow> string option \<Rightarrow> string" where
  "buildArticlePrompt topic niche writingStyle wordCount tone customPrompt =
     (let prompt = ''Write a '' @ showInt wordCount @ ''-word article about '' @ [CHR 0x22] @ topic
                     @ [CHR 0x22] @ '' in the '' @ niche @ '' niche.'';
          prompt = (if truthyStr tone
                    then prompt @ ''\<newline>\<newline>Tone: Write in a '' @ showStr tone @ '' tone.''
                    else prompt);
          prompt = (case writingStyle of
                      None \<Rightarrow> prompt
                    | Some ws \<Rightarrow>
                       (let prompt = prompt @ ''\<newline>\<newline>Writing Style:'';
                            prompt = (if truthyStr (voice ws)
                                      then prompt @ ''\<newline>- Voice: '' @ showStr (voice ws)
                                      else prompt);
                            prompt = (if truthyStr (complexity ws)
                                      then prompt @ ''\<newline>- Complexity: '' @ showStr (complexity ws)
                                      else prompt);
                            prompt = (if truthyStr (styleStructure ws)
                                      then prompt @ ''\<newline>- Structure: '' @ showStr (styleStructure ws)
                                      else prompt);
                            prompt = (if truthyBool (examples ws)
                                      then prompt @ ''\<newline>- Include examples: '' @ showBool (examples ws)
                                      else prompt);
                            prompt = (if truthyBool (quotes ws)
                                      then prompt @ ''\<newline>- Include quotes: '' @ showBool (quotes ws)
                                      else prompt);
                            prompt = (if truthyBool (callToAction ws)
                                      then prompt @ ''\<newline>- Call to action: '' @ showBool (callToAction ws)
                                      else prompt)
                        in prompt));
          prompt = (if truthyStr customPrompt
                    then prompt @ ''\<newline>\<newline>Additional Instructions: '' @ showStr customPrompt
                    else prompt);
          prompt = prompt @ formatInstruction
      in prompt)"


section \<open>Generation client\<close>

text \<open>The object returned by \<^verbatim>\<open>generateArticle\<close>.\<close>

record generated =
  genTitle :: string
  genContent :: string
  genWordCount :: int

text \<open>
  \<^verbatim>\<open>generateArticle\<close>. The chat-completion call is the parameter \<open>chatCompletion\<close>, from the
  prompt and \<^verbatim>\<open>max_tokens\<close> to \<^verbatim>\<open>completion.choices[0].message.content\<close>;
  \<open>None\<close> stands for every exception inside the \<^verbatim>\<open>try\<close> block, which the function
  rethrows as one fixed \<^verbatim>\<open>Error\<close>.
\<close>

definition generateArticle ::
  "(string \<Rightarrow> int \<Rightarrow> string option) \<Rightarrow> string \<Rightarrow> string \<Rightarrow> writing_style option \<Rightarrow> int
     \<Rightarrow> string option \<Rightarrow> string option \<Rightarrow> string + generated" where
  "generateArticle chatCompletion topic niche writingStyle wordCount tone customPrompt =
     (let prompt = buildArticlePrompt topic niche writingStyle wordCount tone customPrompt
      in case chatCompletion prompt (min (wordCount * 2) 4000) of
           None \<Rightarrow> Inl ''Failed to generate article with AI''
         | Some generatedContent \<Rightarrow>
             (let p = parseGeneratedContent generatedContent;
                  actualWordCount = int (length (splitWhiteSpace (parsedContent p)))
              in Inr \<lparr> genTitle = parsedTitle p, genContent = parsedContent p,
                       genWordCount = actualWordCount \<rparr>))"

text \<open>The JSON error responses: status code and \<^verbatim>\<open>error\<close> text.\<close>

datatype http_error = HttpError nat string

section \<open>Topic aggregator\<close>

text \<open>
  The items returned by the topic providers of \<^verbatim>\<open>routes/topics.js\<close>. Every item
  has the first four fields; the others are present for some providers only. The
  relevance literals \<^verbatim>\<open>0.9\<close>, \<^verbatim>\<open>0.8\<close>, ... are written as fractions.
\<close>

record topic_item =
  topicTitle :: string
  topicDescription :: string
  topicSource :: string
  topicRelevance :: rat
  topicUrl :: "string option"
  topicPublishedAt :: "string option"
  topicSearchVolume :: "string option"
  topicSubreddit :: "string option"
  topicHashtag :: "string option"
  topicKeyword :: "string option"

text \<open>The part of \<^verbatim>\<open>process.env\<close> that selects the optional providers.\<close>

record environment =
  GOOGLE_TRENDS_API_KEY :: "string option"
  NEWS_API_KEY :: "string option"

text \<open>
  The closure passed to \<^verbatim>\<open>filter\<close> by \<^verbatim>\<open>removeDuplicates\<close> and
  \<^verbatim>\<open>removeDuplicateImages\<close>, with its \<^verbatim>\<open>seen\<close> set: an item is kept when its key
  has not been seen, and its key is added to the set in both cases.
\<close>

fun filterUnseen :: "('a \<Rightarrow> 'k) \<Rightarrow> 'k set \<Rightarrow> 'a list \<Rightarrow> 'a list" where
  "filterUnseen key seen [] = []"
| "filterUnseen key seen (x # xs) =
     (let duplicate = key x \<in> seen;
          seen' = insert (key x) seen
      in if \<not> duplicate then x # filterUnseen key seen' xs else filterUnseen key seen' xs)"

definition removeDuplicates :: "topic_item list \<Rightarrow> topic_item list" where
  "removeDuplicates topics = filterUnseen topicTitle {} topics"

text \<open>
  \<^verbatim>\<open>xs.slice(0, stop)\<close> for an integer \<open>stop\<close>: a negative \<open>stop\<close> counts from the
  end of the array.
\<close>

definition sliceTo :: "int \<Rightarrow> 'a list \<Rightarrow> 'a list" where
  "sliceTo stop xs =
     (if stop < 0 then take (nat (int (length xs) + stop)) xs else take (nat stop) xs)"

definition plainTopic :: "string \<Rightarrow> string \<Rightarrow> string \<Rightarrow> rat \<Rightarrow> topic_item" where
  "plainTopic t d s r =
     \<lparr> topicTitle = t, topicDescription = d, topicSource = s, topicRelevance = r,
       topicUrl = None, topicPublishedAt = None, topicSearchVolume = None,
       topicSubreddit = None, topicHashtag = None, topicKeyword = None \<rparr>"

definition fallbackTopics :: "(string \<times> topic_item list) list" where
  "fallbackTopics =
     [(''technology'',
         [plainTopic ''Latest AI Developments'' ''Recent advances in artificial intelligence''
            ''Fallback'' (8/10),
          plainTopic ''Cybersecurity Trends'' ''Current cybersecurity challenges and solutions''
            ''Fallback'' (7/10)]),
      (''health'',
         [plainTopic ''Mental Health Awareness'' ''Importance of mental health in modern life''
            ''Fallback'' (8/10),
          plainTopic ''Nutrition Tips'' ''Healthy eating habits and nutrition advice''
            ''Fallback'' (7/10)]),
      (''business'',
         [plainTopic ''Remote Work Trends'' ''The future of remote work and productivity''
            ''Fallback'' (8/10),
          plainTopic ''Digital Marketing Strategies'' ''Effective digital marketing approaches''
            ''Fallback'' (7/10)])]"

text \<open>
  A lookup \<^verbatim>\<open>obj[key]\<close> in an object literal. Besides its own keys the object has
  the members that it inherits from \<^verbatim>\<open>Object.prototype\<close>: eleven functions and the
  accessor \<^verbatim>\<open>__proto__\<close>, whose value is the prototype itself. An inherited member
  is truthy, is not an array, and has no element \<^verbatim>\<open>0\<close>.
\<close>

definition objectPrototypeKeys :: "string list" where
  "objectPrototypeKeys =
     [''constructor'', ''__defineGetter__'', ''__defineSetter__'', ''hasOwnProperty'',
      ''__lookupGetter__'', ''__lookupSetter__'', ''isPrototypeOf'', ''propertyIsEnumerable'',
      ''toString'', ''valueOf'', ''__proto__'', ''toLocaleString'']"

datatype 'a property = Own 'a | Inherited | Undefined

definition getMember :: "(string \<times> 'a) list \<Rightarrow> string \<Rightarrow> 'a property" where
  "getMember obj key =
     (case map_of obj key of
        Some v \<Rightarrow> Own v
      | None \<Rightarrow> if key \<in> set objectPrototypeKeys then Inherited else Undefined)"

text \<open>
  What the trending operation returns: a list of topics, or the member of
  \<^verbatim>\<open>Object.prototype\<close> that the niche names.
\<close>

datatype topics_result = TopicList "topic_item list" | PrototypeMember string

text \<open>
  \<^verbatim>\<open>getFallbackTopics\<close>: \<^verbatim>\<open>fallbackTopics[niche] || [generic item]\<close>. A curated
  list (an array) and an inherited member are truthy.
\<close>

definition getFallbackTopics :: "string \<Rightarrow> topics_result" where
  "getFallbackTopics n =
     (case getMember fallbackTopics n of
        Own ts \<Rightarrow> TopicList ts
      | Inherited \<Rightarrow> PrototypeMember n
      | Undefined \<Rightarrow>
          TopicList [plainTopic (n @ '' insights'') (''Latest trends in '' @ n) ''Fallback'' (6/10)])"

text \<open>
  The body of \<^verbatim>\<open>getTrendingTopics\<close>, on the outcomes of its four awaited provider
  calls: \<open>Inr\<close> the list a call returned, \<open>Inl\<close> the error it threw. The first error
  leaves the \<^verbatim>\<open>try\<close> block for the \<^verbatim>\<open>catch\<close>.
\<close>

definition getTrendingTopicsFrom ::
  "environment \<Rightarrow> string + topic_item list \<Rightarrow> string + topic_item list
     \<Rightarrow> string + topic_item list \<Rightarrow> string + topic_item list \<Rightarrow> string \<Rightarrow> topics_result" where
  "getTrendingTopicsFrom env googleTrends newsTopics redditTopics twitterTopics n =
     (let attempt =
        (case (if truthyStr (GOOGLE_TRENDS_API_KEY env) then googleTrends else Inr []) of
           Inl e \<Rightarrow> Inl e
         | Inr g \<Rightarrow>
        (case (if truthyStr (NEWS_API_KEY env) then newsTopics else Inr []) of
           Inl e \<Rightarrow> Inl e
         | Inr nw \<Rightarrow>
        (case redditTopics of
           Inl e \<Rightarrow> Inl e
         | Inr r \<Rightarrow>
        (case twitterTopics of
           Inl e \<Rightarrow> Inl e
         | Inr tw \<Rightarrow> Inr (sliceTo 20 (removeDuplicates (g @ nw @ r @ tw)))))))
      in case attempt of
           Inl e \<Rightarrow> getFallbackTopics n
         | Inr uniqueTopics \<Rightarrow> TopicList uniqueTopics)"

text \<open>The body of \<^verbatim>\<open>searchTopics\<close>, in the same way.\<close>

definition searchTopicsFrom ::
  "environment \<Rightarrow> string + topic_item list \<Rightarrow> string + topic_item list \<Rightarrow> int \<Rightarrow> topic_item list" where
  "searchTopicsFrom env newsResults redditResults limit =
     (let attempt =
        (case (if truthyStr (NEWS_API_KEY env) then newsResults else Inr []) of
           Inl e \<Rightarrow> Inl e
         | Inr nw \<Rightarrow>
        (case redditResults of
           Inl e \<Rightarrow> Inl e
         | Inr r \<Rightarrow> Inr (sliceTo limit (removeDuplicates (nw @ r)))))
      in case attempt of
           Inl e \<Rightarrow> []
         | Inr found \<Rightarrow> found)"


record news_article =
  newsTitle :: string
  newsDescription :: string
  newsUrl :: string
  newsPublishedAt :: string

text \<open>
  \<^verbatim>\<open>getNewsTopics\<close> and \<^verbatim>\<open>searchNewsTopics\<close> map the articles of the HTTP response
  in the same way; \<open>Inl\<close> is any exception inside their \<^verbatim>\<open>try\<close> block.
\<close>

definition newsTopicsOf :: "string + news_article list \<Rightarrow> topic_item list" where
  "newsTopicsOf response =
     (case response of
        Inl e \<Rightarrow> []
      | Inr articles \<Rightarrow>
          map (\<lambda>a. (plainTopic (newsTitle a) (newsDescription a) ''News API'' (8/10))
                      \<lparr>topicUrl := Some (newsUrl a), topicPublishedAt := Some (newsPublishedAt a)\<rparr>)
              articles)"





definition searchRedditTopics :: "string \<Rightarrow> string option \<Rightarrow> int \<Rightarrow> topic_item list" where
  "searchRedditTopics keyword n limit =
     [(plainTopic (''Reddit discussions about '' @ keyword @ '' in '' @ showStr n)
         ''Community discussions and insights'' ''Reddit'' (7/10))
        \<lparr>topicKeyword := Some keyword\<rparr>]"


definition searchTopics ::
  "environment \<Rightarrow> string + news_article list \<Rightarrow> string \<Rightarrow> string option \<Rightarrow> int \<Rightarrow> topic_item list" where
  "searchTopics env newsResponse keyword n limit =
     searchTopicsFrom env (Inr (newsTopicsOf newsResponse))
       (Inr (searchRedditTopics keyword n limit)) limit"

section \<open>Image aggregator\<close>

text \<open>The image records built by \<^verbatim>\<open>searchUnsplash\<close> and \<^verbatim>\<open>searchPexels\<close>.\<close>

record image_item =
  imgId :: string
  imgUrl :: string
  imgThumbUrl :: string
  imgDownloadUrl :: string
  imgAlt :: string
  imgPhotographer :: string
  imgPhotographerUrl :: string
  imgWidth :: int
  imgHeight :: int
  imgSource :: string
  imgLicense :: string
  imgTags :: "string list"

definition removeDuplicateImages :: "image_item list \<Rightarrow> image_item list" where
  "removeDuplicateImages imgs = filterUnseen imgUrl {} imgs"

section \<open>Publisher\<close>

text \<open>
  A rejected axios request: \<^verbatim>\<open>error.response?.status\<close> is the status of the HTTP
  response, or \<^verbatim>\<open>undefined\<close> when there was none (no connection, a timeout, or any
  other exception inside the \<^verbatim>\<open>try\<close> block).
\<close>

datatype axios_error = HttpFailure nat | NoResponse

definition responseStatus :: "axios_error \<Rightarrow> nat option" where
  "responseStatus e = (case e of HttpFailure st \<Rightarrow> Some st | NoResponse \<Rightarrow> None)"

definition invalidCredentialsMessage :: string where
  "invalidCredentialsMessage = ''Invalid credentials. Please check your username and password.''"

definition restApiNotFoundMessage :: string where
  "restApiNotFoundMessage =
     ''WordPress REST API not found. Please ensure your site has REST API enabled.''"

definition connectionFailedMessage :: string where
  "connectionFailedMessage =
     ''Failed to connect to WordPress site. Please check your site URL and credentials.''"

text \<open>
  The four helpers that call the remote API, on the outcome of the request. \<open>Inl\<close> of
  the result is the \<^verbatim>\<open>error\<close> text of \<^verbatim>\<open>{ success: false, error }\<close>, or the message
  of the \<^verbatim>\<open>Error\<close> thrown by \<^verbatim>\<open>getWordPressPosts\<close>; the payload of a successful
  request is passed on as it is.
\<close>

definition testWordPressConnection :: "axios_error + 'a \<Rightarrow> string + 'a" where
  "testWordPressConnection response =
     (case response of
        Inr blogInfo \<Rightarrow> Inr blogInfo
      | Inl e \<Rightarrow>
          if responseStatus e = Some 401 then Inl invalidCredentialsMessage
          else if responseStatus e = Some 404 then Inl restApiNotFoundMessage
          else Inl connectionFailedMessage)"

definition updateWordPressPost :: "axios_error + 'a \<Rightarrow> string + 'a" where
  "updateWordPressPost response =
     (case response of
        Inr postInfo \<Rightarrow> Inr postInfo
      | Inl e \<Rightarrow> Inl ''Failed to update WordPress post'')"

definition deleteWordPressPost :: "axios_error + unit \<Rightarrow> string + unit" where
  "deleteWordPressPost response =
     (case response of
        Inr u \<Rightarrow> Inr ()
      | Inl e \<Rightarrow> Inl ''Failed to delete WordPress post'')"

definition getWordPressPosts :: "axios_error + 'a \<Rightarrow> string + 'a" where
  "getWordPressPosts response =
     (case response of
        Inr posts \<Rightarrow> Inr posts
      | Inl e \<Rightarrow> Inl ''Failed to fetch posts from WordPress'')"

text \<open>
  The routes \<^verbatim>\<open>PUT /api/blog/post/:postId\<close>, \<^verbatim>\<open>DELETE /api/blog/post/:postId\<close> and
  \<^verbatim>\<open>GET /api/blog/posts\<close>; \<open>blogConnected\<close> is
  \<^verbatim>\<open>blogSettings && blogSettings.connected\<close>.
\<close>

definition updatePostRoute :: "bool \<Rightarrow> axios_error + 'a \<Rightarrow> http_error + 'a" where
  "updatePostRoute blogConnected response =
     (if \<not> blogConnected then Inl (HttpError 400 ''Blog not connected'')
      else case updateWordPressPost response of
             Inl err \<Rightarrow> Inl (HttpError 400 err)
           | Inr postInfo \<Rightarrow> Inr postInfo)"

definition deletePostRoute :: "bool \<Rightarrow> axios_error + unit \<Rightarrow> http_error + unit" where
  "deletePostRoute blogConnected response =
     (if \<not> blogConnected then Inl (HttpError 400 ''Blog not connected'')
      else case deleteWordPressPost response of
             Inl err \<Rightarrow> Inl (HttpError 400 err)
           | Inr u \<Rightarrow> Inr ())"

definition listPostsRoute :: "bool \<Rightarrow> axios_error + 'a \<Rightarrow> http_error + 'a" where
  "listPostsRoute blogConnected response =
     (if \<not> blogConnected then Inl (HttpError 400 ''Blog not connected'')
      else case getWordPressPosts response of
             Inl thrown \<Rightarrow> Inl (HttpError 500 ''Failed to fetch blog posts'')
           | Inr posts \<Rightarrow> Inr posts)"

section \<open>Registration\<close>

text \<open>
  \<^verbatim>\<open>s.toLowerCase()\<close>, for code units up to 0xFF: the letters A to Z and the
  letters from 0xC0 to 0xDE other than the multiplication sign 0xD7 move up by 0x20.
\<close>

definition toLowerChar :: "char \<Rightarrow> char" where
  "toLowerChar c =
     (let n = (of_char c :: nat)
      in if (65 \<le> n \<and> n \<le> 90) \<or> (192 \<le> n \<and> n \<le> 222 \<and> n \<noteq> 215)
         then char_of (n + 32) else c)"

definition toLowerCase :: "string \<Rightarrow> string" where
  "toLowerCase s = map toLowerChar s"

text \<open>
  The User document of \<^verbatim>\<open>models/User.js\<close>: its id and the three paths that the
  request of a registration fills. The other paths of the schema (\<open>blogSettings\<close>,
  which the route copies from the request, and those that only have defaults) are left
  out; registration does not read them.
\<close>

record user =
  userDocId :: nat
  username :: string
  email :: string
  password :: string

text \<open>
  A document in memory with the set of its modified paths, which
  \<^verbatim>\<open>this.isModified(path)\<close> reads. \<^verbatim>\<open>new User({...})\<close> marks the paths it is given,
  and an assignment marks its path. The schema declares \<open>username\<close> with
  \<^verbatim>\<open>trim: true\<close> and \<open>email\<close> with \<^verbatim>\<open>trim: true\<close> and \<^verbatim>\<open>lowercase: true\<close>, so these
  two paths hold the value given after trimming and lowering.
\<close>

type_synonym user_doc = "user \<times> string set"

definition newUser :: "nat \<Rightarrow> string \<Rightarrow> string \<Rightarrow> string \<Rightarrow> user_doc" where
  "newUser newId u e p =
     (\<lparr> userDocId = newId, username = trim u, email = toLowerCase (trim e), password = p \<rparr>,
      {''username'', ''email'', ''password'', ''blogSettings''})"

definition assignPassword :: "user_doc \<Rightarrow> string \<Rightarrow> user_doc" where
  "assignPassword doc p =
     (case doc of (u, modified) \<Rightarrow> (u\<lparr>password := p\<rparr>, insert ''password'' modified))"

text \<open>
  \<^verbatim>\<open>UserSchema.pre('save')\<close>. \<^verbatim>\<open>bcrypt.hash\<close> is the parameter \<open>bcryptHash\<close>, and the
  salt drawn by \<^verbatim>\<open>bcrypt.genSalt(10)\<close> the parameter \<open>salt\<close>.
\<close>

definition preSaveUser :: "(string \<Rightarrow> string \<Rightarrow> string) \<Rightarrow> string \<Rightarrow> user_doc \<Rightarrow> user" where
  "preSaveUser bcryptHash salt doc =
     (case doc of (u, modified) \<Rightarrow>
        if ''password'' \<notin> modified then u
        else u\<lparr>password := bcryptHash (password u) salt\<rparr>)"

record register_body =
  reqUsername :: string
  reqEmail :: string
  reqPassword :: string

text \<open>
  \<^verbatim>\<open>POST /api/auth/register\<close>. \<open>existing\<close> is the outcome of
  \<^verbatim>\<open>User.findOne({ email })\<close>; \<open>salt1\<close> is the salt drawn by the route, \<open>salt2\<close> the
  one drawn by the pre-save hook; \<open>accepts\<close> tells whether \<^verbatim>\<open>user.save()\<close> resolves
  for the document (its validation passes and it is written) or rejects, which the
  route answers with status 500. The result is the response (the signed token and the
  new id) and the user stored, if any.
\<close>

definition registerRoute ::
  "(string \<Rightarrow> string \<Rightarrow> string) \<Rightarrow> string \<Rightarrow> string \<Rightarrow> (nat \<Rightarrow> string) \<Rightarrow> (user \<Rightarrow> bool) \<Rightarrow> nat
     \<Rightarrow> user option \<Rightarrow> register_body \<Rightarrow> (http_error + string \<times> nat) \<times> user option" where
  "registerRoute bcryptHash salt1 salt2 sign accepts newId existing body =
     (case existing of
        Some found \<Rightarrow> (Inl (HttpError 400 ''User already exists''), None)
      | None \<Rightarrow>
          (let doc = newUser newId (reqUsername body) (reqEmail body) (reqPassword body);
               doc = assignPassword doc (bcryptHash (reqPassword body) salt1)
           in if accepts (fst doc)
              then (let saved = preSaveUser bcryptHash salt2 doc
                    in (Inr (sign (userDocId saved), userDocId saved), Some saved))
              else (Inl (HttpError 500 ''Server error''), None)))"

section \<open>Articles\<close>

text \<open>
  The Article document of \<^verbatim>\<open>models/Article.js\<close>. Dates are milliseconds since the
  epoch; \<open>docId\<close> is the document's \<^verbatim>\<open>_id\<close> and \<open>articleKeywords\<close> its
  \<^verbatim>\<open>keywords\<close>; \<open>createdAt\<close> and \<open>updatedAt\<close> are the two fields of the schema
  option \<^verbatim>\<open>timestamps: true\<close>.
\<close>

type_synonym date = int

record article_image =
  imageUrl :: string
  imageAlt :: string
  imageCaption :: string
  imagePosition :: int
  imageSource :: string
  imagePhotographer :: string
  imagePhotographerUrl :: string

record blog_post =
  postId :: "string option"
  postUrl :: "string option"
  postPublishedAt :: "date option"
  postStatus :: string
  postFeaturedImage :: "(string \<times> string) option"

record seo_data =
  metaTitle :: "string option"
  metaDescription :: "string option"
  focusKeyword :: "string option"
  readabilityScore :: "int option"
  seoScore :: "int option"

record analytics_counters =
  views :: int
  likes :: int
  shares :: int
  comments :: int

record article =
  docId :: nat
  userId :: nat
  title :: string
  content :: string
  topic :: string
  niche :: string
  writingStyle :: writing_style
  wordCount :: int
  tone :: string
  status :: string
  tags :: "string list"
  articleKeywords :: "string list"
  seoData :: seo_data
  images :: "article_image list"
  blogPost :: "blog_post option"
  analytics :: analytics_counters
  generatedAt :: date
  regeneratedAt :: "date option"
  publishedAt :: "date option"
  archivedAt :: "date option"
  createdAt :: date
  updatedAt :: date

text \<open>
  The collection, keyed by \<^verbatim>\<open>_id\<close>.
  \<^verbatim>\<open>Article.findOne({ _id: articleId, userId: req.user.id })\<close> finds the document
  only for its owner.
\<close>

type_synonym article_store = "nat \<rightharpoonup> article"

definition findOne :: "article_store \<Rightarrow> nat \<Rightarrow> nat \<Rightarrow> article option" where
  "findOne store articleId uid =
     (case store articleId of
        None \<Rightarrow> None
      | Some a \<Rightarrow> if docId a = articleId \<and> userId a = uid then Some a else None)"

text \<open>
  An assignment \<^verbatim>\<open>article.title = value\<close>: the schema declares \<open>title\<close> with
  \<^verbatim>\<open>trim: true\<close>, so the path holds the trimmed value. The other paths that the
  routes assign have no setter.
\<close>

definition assignTitle :: "article \<Rightarrow> string \<Rightarrow> article" where
  "assignTitle a t = a\<lparr>title := trim t\<rparr>"

text \<open>
  \<^verbatim>\<open>ArticleSchema.pre('save')\<close>. \<^verbatim>\<open>this.isModified('content')\<close> is the first
  argument: the routes assign \<open>content\<close> at most once to a loaded document, and the
  path is then modified when the assigned value differs from the loaded one.
\<close>

definition preSaveArticle :: "bool \<Rightarrow> article \<Rightarrow> article" where
  "preSaveArticle contentModified a =
     (if contentModified then a\<lparr>wordCount := int (length (splitWhiteSpace (content a)))\<rparr> else a)"

text \<open>
  The schema option \<^verbatim>\<open>timestamps: true\<close> adds a hook to \<^verbatim>\<open>save\<close>: when the document
  is modified, that is, when a path that the route assigned holds another value than in
  the loaded document, \<open>updatedAt\<close> is set to the clock reading \<open>savedAt\<close> that
  \<^verbatim>\<open>save\<close> takes itself, whatever the route assigned to it.
\<close>

definition timestampsPreSave :: "date \<Rightarrow> article \<Rightarrow> article \<Rightarrow> article" where
  "timestampsPreSave savedAt loaded a = (if a \<noteq> loaded then a\<lparr>updatedAt := savedAt\<rparr> else a)"

text \<open>
  \<^verbatim>\<open>await article.save()\<close> on a document loaded as \<open>loaded\<close>. \<open>accepts\<close> tells
  whether \<^verbatim>\<open>save\<close> resolves for the document as the route left it (its validation
  passes and it is written) or rejects, in which case nothing is stored: \<open>None\<close>.
  When it resolves, the timestamps hook and the pre-save hook of the model have run, in
  this order, and the document has replaced the stored one.
\<close>

definition saveArticle ::
  "(article \<Rightarrow> bool) \<Rightarrow> date \<Rightarrow> article_store \<Rightarrow> article \<Rightarrow> article
     \<Rightarrow> (article \<times> article_store) option" where
  "saveArticle accepts savedAt store loaded a =
     (if accepts a
      then (let stamped = timestampsPreSave savedAt loaded a;
                saved = preSaveArticle (content a \<noteq> content loaded) stamped
            in Some (saved, store(docId saved \<mapsto> saved)))
      else None)"

text \<open>The body of \<^verbatim>\<open>POST /api/articles/:id/regenerate\<close>.\<close>

record regenerate_body =
  reqWritingStyle :: "writing_style option"
  reqWordCount :: "int option"
  reqTone :: "string option"
  reqCustomPrompt :: "string option"

text \<open>
  \<^verbatim>\<open>POST /api/articles/:id/regenerate\<close>, for the authenticated user \<open>uid\<close>. The two
  \<^verbatim>\<open>new Date()\<close> are the clock readings \<open>now1\<close> and \<open>now2\<close>, and \<open>savedAt\<close> is the
  reading that \<^verbatim>\<open>save\<close> takes after them. The result is the response and the
  collection afterwards; every exception inside the \<^verbatim>\<open>try\<close> block is answered with
  status 500.
\<close>

definition regenerateRoute ::
  "(string \<Rightarrow> int \<Rightarrow> string option) \<Rightarrow> (article \<Rightarrow> bool) \<Rightarrow> date \<Rightarrow> date \<Rightarrow> date
     \<Rightarrow> article_store \<Rightarrow> nat \<Rightarrow> nat \<Rightarrow> regenerate_body
     \<Rightarrow> (http_error + article) \<times> article_store" where
  "regenerateRoute chatCompletion accepts now1 now2 savedAt store uid articleId body =
     (case findOne store articleId uid of
        None \<Rightarrow> (Inl (HttpError 404 ''Article not found''), store)
      | Some originalArticle \<Rightarrow>
          (let chosenStyle = (case reqWritingStyle body of
                                Some ws \<Rightarrow> ws | None \<Rightarrow> writingStyle originalArticle);
               chosenWordCount = (if truthyInt (reqWordCount body) then the (reqWordCount body)
                                  else wordCount originalArticle);
               chosenTone = (if truthyStr (reqTone body) then the (reqTone body)
                             else tone originalArticle)
           in case generateArticle chatCompletion (topic originalArticle) (niche originalArticle)
                     (Some chosenStyle) chosenWordCount (Some chosenTone) (reqCustomPrompt body) of
                Inl e \<Rightarrow> (Inl (HttpError 500 ''Failed to regenerate article''), store)
              | Inr newArticle \<Rightarrow>
                  (let a = assignTitle originalArticle (genTitle newArticle);
                       a = a\<lparr>content := genContent newArticle\<rparr>;
                       a = a\<lparr>writingStyle := chosenStyle\<rparr>;
                       a = a\<lparr>wordCount := genWordCount newArticle\<rparr>;
                       a = a\<lparr>tone := chosenTone\<rparr>;
                       a = a\<lparr>updatedAt := now1\<rparr>;
                       a = a\<lparr>regeneratedAt := Some now2\<rparr>
                   in case saveArticle accepts savedAt store originalArticle a of
                        None \<Rightarrow> (Inl (HttpError 500 ''Failed to regenerate article''), store)
                      | Some (saved, store') \<Rightarrow> (Inr saved, store'))))"



section \<open>Notions used to state the properties\<close>

subsection \<open>Marker lines of a generated text\<close>

definition isTitleLine :: "string \<Rightarrow> bool" where
  "isTitleLine l = startsWith ''TITLE:'' l"

definition isContentLine :: "string \<Rightarrow> bool" where
  "isContentLine l = startsWith ''CONTENT:'' l"

text \<open>Some line of the text begins with one of the two markers.\<close>

definition hasMarkers :: "string \<Rightarrow> bool" where
  "hasMarkers raw = list_ex (\<lambda>l. isTitleLine l \<or> isContentLine l) (splitStr ''\<newline>'' raw)"

text \<open>A line beginning with \<^verbatim>\<open>TITLE:\<close> has a later line beginning with \<^verbatim>\<open>CONTENT:\<close>.\<close>

definition titleThenContent :: "string \<Rightarrow> bool" where
  "titleThenContent raw =
     list_ex isContentLine (drop 1 (dropWhile (\<lambda>l. \<not> isTitleLine l) (splitStr ''\<newline>'' raw)))"

text \<open>The trimmed text after the marker of a \<^verbatim>\<open>TITLE:\<close> line.\<close>

definition afterTitleMarker :: "string \<Rightarrow> string" where
  "afterTitleMarker l = trim (drop (length ''TITLE:'') l)"

text \<open>
  The title text of the last \<^verbatim>\<open>TITLE:\<close> line among \<open>ls\<close>, and \<open>t\<close> when there is
  none.
\<close>

definition titleFrom :: "string \<Rightarrow> string list \<Rightarrow> string" where
  "titleFrom t ls = (case rev (filter isTitleLine ls) of [] \<Rightarrow> t | l # _ \<Rightarrow> afterTitleMarker l)"

definition lastTitleText :: "string list \<Rightarrow> string" where
  "lastTitleText ls = titleFrom [] ls"

text \<open>
  The lines after the first \<^verbatim>\<open>CONTENT:\<close> line that begin with neither marker, and
  their concatenation with a line feed after each.
\<close>

definition bodyLines :: "string list \<Rightarrow> string list" where
  "bodyLines ls = filter (\<lambda>l. \<not> isTitleLine l \<and> \<not> isContentLine l)
                    (drop 1 (dropWhile (\<lambda>l. \<not> isContentLine l) ls))"

definition appendLines :: "string list \<Rightarrow> string" where
  "appendLines ls = concat (map (\<lambda>l. l @ ''\<newline>'') ls)"

text \<open>
  The content as the specification words it: the body lines joined by line feeds,
  without the blank lines at the start and at the end, and nothing else removed.
\<close>

definition isBlankLine :: "string \<Rightarrow> bool" where
  "isBlankLine l = list_all isWhiteSpace l"

definition specContent :: "string \<Rightarrow> string" where
  "specContent raw =
     join ''\<newline>'' (rev (dropWhile isBlankLine (rev (dropWhile isBlankLine
       (bodyLines (splitStr ''\<newline>'' raw))))))"

subsection \<open>The parts of a prompt\<close>

text \<open>The value of a style field: a string or a boolean.\<close>

datatype style_value = StrVal string | BoolVal bool

text \<open>The six style fields in the order of the prompt, each with the label of its line.\<close>

definition styleFields :: "writing_style \<Rightarrow> (string \<times> style_value option) list" where
  "styleFields ws =
     [(''Voice'', map_option StrVal (voice ws)),
      (''Complexity'', map_option StrVal (complexity ws)),
      (''Structure'', map_option StrVal (styleStructure ws)),
      (''Include examples'', map_option BoolVal (examples ws)),
      (''Include quotes'', map_option BoolVal (quotes ws)),
      (''Call to action'', map_option BoolVal (callToAction ws))]"

text \<open>A field is present when the object has it, and truthy when \<^verbatim>\<open>if (field)\<close> takes the branch.\<close>

definition isPresent :: "style_value option \<Rightarrow> bool" where
  "isPresent v = (v \<noteq> None)"

fun isTruthy :: "style_value option \<Rightarrow> bool" where
  "isTruthy None = False"
| "isTruthy (Some (StrVal s)) = (s \<noteq> [])"
| "isTruthy (Some (BoolVal b)) = b"

fun showValue :: "style_value option \<Rightarrow> string" where
  "showValue None = ''undefined''"
| "showValue (Some (StrVal s)) = s"
| "showValue (Some (BoolVal b)) = (if b then ''true'' else ''false'')"

definition styleLine :: "string \<times> style_value option \<Rightarrow> string" where
  "styleLine f = ''\<newline>- '' @ fst f @ '': '' @ showValue (snd f)"

text \<open>The five parts of the prompt.\<close>

definition baseInstruction :: "int \<Rightarrow> string \<Rightarrow> string \<Rightarrow> string" where
  "baseInstruction wc tp nc =
     ''Write a '' @ showInt wc @ ''-word article about '' @ [CHR 0x22] @ tp @ [CHR 0x22]
       @ '' in the '' @ nc @ '' niche.''"

definition toneClause :: "string option \<Rightarrow> string" where
  "toneClause tn =
     (case tn of None \<Rightarrow> []
      | Some t \<Rightarrow> if t = [] then [] else ''\<newline>\<newline>Tone: Write in a '' @ t @ '' tone.'')"

definition styleBlock :: "(style_value option \<Rightarrow> bool) \<Rightarrow> writing_style option \<Rightarrow> string" where
  "styleBlock emitted style =
     (case style of None \<Rightarrow> []
      | Some ws \<Rightarrow> ''\<newline>\<newline>Writing Style:''
                    @ concat (map styleLine (filter (\<lambda>f. emitted (snd f)) (styleFields ws))))"

definition customClause :: "string option \<Rightarrow> string" where
  "customClause cp =
     (case cp of None \<Rightarrow> []
      | Some c \<Rightarrow> if c = [] then [] else ''\<newline>\<newline>Additional Instructions: '' @ c)"

text \<open>
  The prompt built in the fixed order, with one line for each style field that
  \<open>emitted\<close> selects.
\<close>

definition promptInOrder ::
  "(style_value option \<Rightarrow> bool) \<Rightarrow> string \<Rightarrow> string \<Rightarrow> writing_style option \<Rightarrow> int
     \<Rightarrow> string option \<Rightarrow> string option \<Rightarrow> string" where
  "promptInOrder emitted tp nc style wc tn cp =
     baseInstruction wc tp nc @ toneClause tn @ styleBlock emitted style @ customClause cp
       @ formatInstruction"

text \<open>The prompt as the specification words it: one line for each present style field.\<close>

definition specArticlePrompt ::
  "string \<Rightarrow> string \<Rightarrow> writing_style option \<Rightarrow> int \<Rightarrow> string option \<Rightarrow> string option \<Rightarrow> string" where
  "specArticlePrompt tp nc style wc tn cp = promptInOrder isPresent tp nc style wc tn cp"

subsection \<open>Word count\<close>


subsection \<open>The validators of the Article schema\<close>

definition niches :: "string list" where
  "niches = [''technology'', ''health'', ''business'', ''lifestyle'', ''entertainment'',
             ''sports'', ''education'', ''travel'', ''food'', ''fashion'', ''science'', ''politics'']"

definition allowed :: "string list \<Rightarrow> string option \<Rightarrow> bool" where
  "allowed values x = (case x of None \<Rightarrow> True | Some v \<Rightarrow> v \<in> set values)"

text \<open>
  The document satisfies every validator that the schema declares: the required
  strings are not empty, the title has at most 200 characters, the word count is at
  least 100, and each enumerated path holds one of its values.
\<close>

definition schemaAccepts :: "article \<Rightarrow> bool" where
  "schemaAccepts a \<longleftrightarrow>
     title a \<noteq> [] \<and> length (title a) \<le> 200 \<and> content a \<noteq> [] \<and> topic a \<noteq> []
     \<and> niche a \<in> set niches
     \<and> allowed [''professional'', ''casual'', ''friendly'', ''authoritative'', ''conversational'']
          (voice (writingStyle a))
     \<and> allowed [''simple'', ''moderate'', ''advanced''] (complexity (writingStyle a))
     \<and> allowed [''traditional'', ''storytelling'', ''list-based'', ''question-answer'']
          (styleStructure (writingStyle a))
     \<and> 100 \<le> wordCount a
     \<and> tone a \<in> set [''professional'', ''casual'', ''friendly'', ''authoritative'']
     \<and> status a \<in> set [''draft'', ''review'', ''published'', ''archived'']
     \<and> list_all (\<lambda>i. imageSource i \<in> set [''unsplash'', ''pexels'', ''uploaded'']) (images a)
     \<and> (case blogPost a of None \<Rightarrow> True
         | Some p \<Rightarrow> postStatus p \<in> set [''draft'', ''private'', ''publish''])"

subsection \<open>A stored article, requests and a completion, to instantiate the properties\<close>

text \<open>A text of \<open>n\<close> times the same word.\<close>

definition wordsOf :: "nat \<Rightarrow> string \<Rightarrow> string" where
  "wordsOf n w = join '' '' (replicate n w)"

definition exampleArticle :: article where
  "exampleArticle =
     \<lparr> docId = 7, userId = 1, title = ''Old title'', content = wordsOf 120 ''old'',
       topic = ''Solar power'', niche = ''science'',
       writingStyle = \<lparr> voice = Some ''casual'', complexity = None, styleStructure = None,
                        examples = Some True, quotes = Some False, callToAction = None,
                        customInstructions = None \<rparr>,
       wordCount = 120, tone = ''friendly'', status = ''draft'', tags = [], articleKeywords = [],
       seoData = \<lparr> metaTitle = None, metaDescription = None, focusKeyword = None,
                   readabilityScore = None, seoScore = None \<rparr>,
       images = [], blogPost = None,
       analytics = \<lparr> views = 4, likes = 0, shares = 0, comments = 0 \<rparr>,
       generatedAt = 100, regeneratedAt = None, publishedAt = None, archivedAt = None,
       createdAt = 100, updatedAt = 100 \<rparr>"

definition exampleStore :: article_store where
  "exampleStore = Map.empty(7 \<mapsto> exampleArticle)"

definition exampleChat :: "string \<Rightarrow> int \<Rightarrow> string option" where
  "exampleChat prompt maxTokens =
     Some (''TITLE: New title\<newline>\<newline>CONTENT:\<newline>'' @ wordsOf 100 ''new'' @ ''\<newline>'')"

definition exampleGenerated :: generated where
  "exampleGenerated =
     \<lparr> genTitle = ''New title'', genContent = wordsOf 100 ''new'', genWordCount = 100 \<rparr>"

definition emptyRegenerateBody :: regenerate_body where
  "emptyRegenerateBody =
     \<lparr> reqWritingStyle = None, reqWordCount = None, reqTone = None, reqCustomPrompt = None \<rparr>"

definition regeneratedExample :: article where
  "regeneratedExample =
     exampleArticle\<lparr>title := ''New title'', content := wordsOf 100 ''new'', wordCount := 100,
                    updatedAt := 202, regeneratedAt := Some 201\<rparr>"





subsection \<open>Outcomes of the provider calls\<close>

text \<open>A provider call threw; a provider call threw or returned the empty list.\<close>

definition threw :: "string + 'a \<Rightarrow> bool" where
  "threw outcome = (case outcome of Inl e \<Rightarrow> True | Inr xs \<Rightarrow> False)"

definition failedOrEmpty :: "string + 'a list \<Rightarrow> bool" where
  "failedOrEmpty outcome = (case outcome of Inl e \<Rightarrow> True | Inr xs \<Rightarrow> xs = [])"

text \<open>
  The outcomes of the configured providers, in the order of the calls: the two keyed
  providers are called only when their key is set.
\<close>

definition trendingOutcomes ::
  "environment \<Rightarrow> string + topic_item list \<Rightarrow> string + topic_item list
     \<Rightarrow> string + topic_item list \<Rightarrow> string + topic_item list \<Rightarrow> (string + topic_item list) list" where
  "trendingOutcomes env g nw r tw =
     (if truthyStr (GOOGLE_TRENDS_API_KEY env) then [g] else [])
       @ (if truthyStr (NEWS_API_KEY env) then [nw] else []) @ [r, tw]"

definition searchOutcomes ::
  "environment \<Rightarrow> string + topic_item list \<Rightarrow> string + topic_item list
     \<Rightarrow> (string + topic_item list) list" where
  "searchOutcomes env nw r = (if truthyStr (NEWS_API_KEY env) then [nw] else []) @ [r]"

text \<open>Total failure: every configured provider threw or returned the empty list.\<close>

definition totalFailure :: "(string + 'a list) list \<Rightarrow> bool" where
  "totalFailure outcomes = list_all failedOrEmpty outcomes"

text \<open>The results of a provider that is called only when its key is set.\<close>

definition configuredResults :: "bool \<Rightarrow> 'a list \<Rightarrow> 'a list" where
  "configuredResults enabled xs = (if enabled then xs else [])"

definition newsKeyOnly :: environment where
  "newsKeyOnly = \<lparr> GOOGLE_TRENDS_API_KEY = None, NEWS_API_KEY = Some ''key'' \<rparr>"

definition exampleNews :: "news_article list" where
  "exampleNews =
     [\<lparr> newsTitle = ''Chip sales rise'', newsDescription = ''Markets'',
        newsUrl = ''https://news.example/1'', newsPublishedAt = ''2024-05-01'' \<rparr>,
      \<lparr> newsTitle = ''New battery design'', newsDescription = ''Research'',
        newsUrl = ''https://news.example/2'', newsPublishedAt = ''2024-05-02'' \<rparr>]"

subsection \<open>Messages of the publisher\<close>

text \<open>The three-way classification of a failed request by its status.\<close>

definition classifiedMessage :: "axios_error \<Rightarrow> string" where
  "classifiedMessage e =
     (if e = HttpFailure 401 then invalidCredentialsMessage
      else if e = HttpFailure 404 then restApiNotFoundMessage
      else connectionFailedMessage)"

subsection \<open>A registration, to instantiate the properties\<close>

text \<open>A stand-in for \<^verbatim>\<open>bcrypt.hash\<close> that keeps the message readable.\<close>

definition toyHash :: "string \<Rightarrow> string \<Rightarrow> string" where
  "toyHash message salt = salt @ ''$'' @ message"

definition exampleRegistration :: register_body where
  "exampleRegistration =
     \<lparr> reqUsername = ''ada'', reqEmail = ''Ada@example.org'', reqPassword = ''secret1'' \<rparr>"

text \<open>The length validators of the User schema.\<close>

definition lengthsAccepted :: "user \<Rightarrow> bool" where
  "lengthsAccepted u \<longleftrightarrow>
     3 \<le> length (username u) \<and> length (username u) \<le> 30 \<and> 6 \<le> length (password u)"

definition exampleUser :: user where
  "exampleUser = \<lparr> userDocId = 1, username = ''ada'', email = ''ada@example.org'',
                   password = ''s2$s1$secret1'' \<rparr>"

section \<open>Properties of the output parser\<close>

lemma replaceFirst_prefix:
  "startsWith pat s \<Longrightarrow> replaceFirst pat rep s = rep @ drop (length pat) s"
  by (cases s) (auto simp: startsWith_def)

lemma title_line_not_content: "isTitleLine l \<Longrightarrow> \<not> isContentLine l"
  by (cases l) (auto simp: isTitleLine_def isContentLine_def startsWith_def)

lemma parseLine_title:
  "isTitleLine l \<Longrightarrow> parseLine (t, ac, b) l = (afterTitleMarker l, ac, b)"
  by (simp add: parseLine_def isTitleLine_def replaceFirst_prefix afterTitleMarker_def)

lemma parseLine_content:
  "isContentLine l \<Longrightarrow> parseLine (t, ac, b) l = (t, ac, True)"
  using title_line_not_content[of l]
  by (auto simp: parseLine_def isTitleLine_def isContentLine_def)

lemma parseLine_other:
  "\<not> isTitleLine l \<Longrightarrow> \<not> isContentLine l \<Longrightarrow>
   parseLine (t, ac, b) l = (t, if b then ac @ l @ ''\<newline>'' else ac, b)"
  by (simp add: parseLine_def isTitleLine_def isContentLine_def)

lemma titleFrom_Cons:
  "titleFrom t (l # ls) = titleFrom (if isTitleLine l then afterTitleMarker l else t) ls"
  by (cases "rev (filter isTitleLine ls)") (auto simp: titleFrom_def)

text \<open>The loop once a \<^verbatim>\<open>CONTENT:\<close> line has been seen.\<close>

lemma foldl_parseLine_inContent:
  "foldl parseLine (t, ac, True) ls =
     (titleFrom t ls,
      ac @ appendLines (filter (\<lambda>l. \<not> isTitleLine l \<and> \<not> isContentLine l) ls), True)"
proof (induction ls arbitrary: t ac)
  case Nil
  show ?case by (simp add: titleFrom_def appendLines_def)
next
  case (Cons l ls)
  consider "isTitleLine l" | "isContentLine l" "\<not> isTitleLine l"
    | "\<not> isTitleLine l" "\<not> isContentLine l" by blast
  then show ?case
  proof cases
    case 1
    then show ?thesis using Cons.IH by (simp add: parseLine_title titleFrom_Cons)
  next
    case 2
    then show ?thesis using Cons.IH by (simp add: parseLine_content titleFrom_Cons)
  next
    case 3
    then show ?thesis using Cons.IH
      by (simp add: parseLine_other titleFrom_Cons appendLines_def)
  qed
qed

text \<open>The loop before any \<^verbatim>\<open>CONTENT:\<close> line.\<close>

lemma foldl_parseLine_before:
  "foldl parseLine (t, ac, False) ls =
     (titleFrom t ls, ac @ appendLines (bodyLines ls), list_ex isContentLine ls)"
proof (induction ls arbitrary: t)
  case Nil
  show ?case by (simp add: titleFrom_def appendLines_def bodyLines_def)
next
  case (Cons l ls)
  consider "isTitleLine l" | "isContentLine l" "\<not> isTitleLine l"
    | "\<not> isTitleLine l" "\<not> isContentLine l" by blast
  then show ?case
  proof cases
    case 1
    then show ?thesis using Cons.IH title_line_not_content[of l]
      by (simp add: parseLine_title titleFrom_Cons bodyLines_def)
  next
    case 2
    then show ?thesis
      by (simp add: parseLine_content titleFrom_Cons foldl_parseLine_inContent bodyLines_def)
  next
    case 3
    then show ?thesis using Cons.IH
      by (simp add: parseLine_other titleFrom_Cons bodyLines_def)
  qed
qed

lemma parseLines_eq:
  "parseLines ls = (lastTitleText ls, appendLines (bodyLines ls), list_ex isContentLine ls)"
  by (simp add: parseLines_def foldl_parseLine_before lastTitleText_def)

lemma foldl_parseLine_no_markers:
  "\<forall>l \<in> set ls. \<not> isTitleLine l \<and> \<not> isContentLine l \<Longrightarrow>
   foldl parseLine (t, ac, False) ls = (t, ac, False)"
  by (induction ls) (auto simp: parseLine_other)

lemma splitFrom_no_separator:
  "\<not> includesStr sep s \<Longrightarrow> splitFrom sep cur s = [rev cur @ s]"
  by (induction s arbitrary: cur) auto

text \<open>
  C1, as the code has it. For a raw text in which no line begins with \<^verbatim>\<open>TITLE:\<close> or
  \<^verbatim>\<open>CONTENT:\<close> and which has no blank-line boundary (two line feeds in a row), the
  title is the raw text itself, and the literal \<open>''Generated Article''\<close> only when the
  raw text is empty; the content is the raw text with the white space at its two ends
  trimmed, and the raw text itself when nothing is left after trimming.
\<close>

theorem parseGeneratedContent_unmarked:
  assumes "\<not> hasMarkers raw" and "\<not> includesStr ''\<newline>\<newline>'' raw"
  shows "parsedTitle (parseGeneratedContent raw) = (if raw = [] then ''Generated Article'' else raw)
       \<and> parsedContent (parseGeneratedContent raw) = (if trim raw = [] then raw else trim raw)"
proof -
  from assms(1) have "parseLines (splitStr ''\<newline>'' raw) = ([], [], False)"
    unfolding hasMarkers_def parseLines_def list_ex_iff
    by (intro foldl_parseLine_no_markers) blast
  moreover from assms(2) have "splitStr ''\<newline>\<newline>'' raw = [raw]"
    by (simp add: splitStr_def splitFrom_no_separator)
  ultimately show ?thesis
    by (simp add: parseGeneratedContent_def orElse_def)
qed

theorem parseGeneratedContent_unmarked_witness:
  "\<not> hasMarkers '' One line '' \<and> \<not> includesStr ''\<newline>\<newline>'' '' One line ''
   \<and> parsedTitle (parseGeneratedContent '' One line '') = '' One line ''
   \<and> parsedContent (parseGeneratedContent '' One line '') = ''One line''"
proof -
  have h1: "\<not> hasMarkers '' One line ''" by code_simp
  have h2: "\<not> includesStr ''\<newline>\<newline>'' '' One line ''" by code_simp
  have t: "trim '' One line '' = ''One line''" by code_simp
  from parseGeneratedContent_unmarked[OF h1 h2] h1 h2 show ?thesis unfolding t by simp
qed

text \<open>
  C1 as stated fails on its own example: the text \<^verbatim>\<open>Just one line\<close> has no marker and
  no blank-line boundary, and its title is not the literal \<open>''Generated Article''\<close>.
\<close>

theorem parseGeneratedContent_unmarked_counterexample:
  "\<not> hasMarkers ''Just one line'' \<and> \<not> includesStr ''\<newline>\<newline>'' ''Just one line''
   \<and> parsedTitle (parseGeneratedContent ''Just one line'') \<noteq> ''Generated Article''"
  by code_simp

text \<open>
  C7, as the code has it. For a raw text in which a line beginning with \<^verbatim>\<open>TITLE:\<close> has
  a later line beginning with \<^verbatim>\<open>CONTENT:\<close>, and in which the trimmed text after the
  marker of the last \<^verbatim>\<open>TITLE:\<close> line is not empty: the title is that text; the
  content is made of the lines after the first \<^verbatim>\<open>CONTENT:\<close> line that begin with
  neither marker, each followed by a line feed, and trimmed of all the white space at
  its two ends; when nothing is left after trimming, the content is the whole raw text.
\<close>

theorem parseGeneratedContent_marked:
  assumes "titleThenContent raw"
    and "lastTitleText (splitStr ''\<newline>'' raw) \<noteq> []"
  shows "parsedTitle (parseGeneratedContent raw) = lastTitleText (splitStr ''\<newline>'' raw)
       \<and> parsedContent (parseGeneratedContent raw) =
           (if trim (appendLines (bodyLines (splitStr ''\<newline>'' raw))) = [] then raw
            else trim (appendLines (bodyLines (splitStr ''\<newline>'' raw))))"
  using assms(2) by (simp add: parseGeneratedContent_def parseLines_eq orElse_def)

text \<open>The example of the specification is an instance.\<close>

theorem parseGeneratedContent_marked_witness:
  "titleThenContent ''TITLE: Foo\<newline>\<newline>CONTENT:\<newline>Bar\<newline>Baz''
   \<and> lastTitleText (splitStr ''\<newline>'' ''TITLE: Foo\<newline>\<newline>CONTENT:\<newline>Bar\<newline>Baz'') \<noteq> []
   \<and> parsedTitle (parseGeneratedContent ''TITLE: Foo\<newline>\<newline>CONTENT:\<newline>Bar\<newline>Baz'') = ''Foo''
   \<and> parsedContent (parseGeneratedContent ''TITLE: Foo\<newline>\<newline>CONTENT:\<newline>Bar\<newline>Baz'')
       = ''Bar\<newline>Baz''"
proof -
  let ?raw = "''TITLE: Foo\<newline>\<newline>CONTENT:\<newline>Bar\<newline>Baz''"
  have h1: "titleThenContent ?raw" by code_simp
  have t: "lastTitleText (splitStr ''\<newline>'' ?raw) = ''Foo''" by code_simp
  have h2: "lastTitleText (splitStr ''\<newline>'' ?raw) \<noteq> []" unfolding t by simp
  have b: "trim (appendLines (bodyLines (splitStr ''\<newline>'' ?raw))) = ''Bar\<newline>Baz''"
    by code_simp
  from parseGeneratedContent_marked[OF h1 h2] h1 h2 show ?thesis unfolding t b by simp
qed

text \<open>
  C7 as stated fails where the first content line is indented: trimming removes the
  indentation, which is not a blank line.
\<close>

theorem parseGeneratedContent_marked_counterexample:
  "titleThenContent ''TITLE: Foo\<newline>CONTENT:\<newline>  Bar\<newline>Baz''
   \<and> parsedContent (parseGeneratedContent ''TITLE: Foo\<newline>CONTENT:\<newline>  Bar\<newline>Baz'')
       \<noteq> specContent ''TITLE: Foo\<newline>CONTENT:\<newline>  Bar\<newline>Baz''"
  by code_simp

section \<open>Properties of the article routes\<close>

lemma findOne_SomeD:
  "findOne store articleId uid = Some a \<Longrightarrow>
   store articleId = Some a \<and> docId a = articleId \<and> userId a = uid"
  by (auto simp: findOne_def split: option.splits if_splits)

lemma generateArticle_wordCount:
  "generateArticle chat tp nc ws wc tn cp = Inr g \<Longrightarrow>
   genWordCount g = int (length (splitWhiteSpace (genContent g)))"
  by (auto simp: generateArticle_def Let_def split: option.splits)

text \<open>The timestamps hook changes \<open>updatedAt\<close> only, and nothing of an unmodified document.\<close>

lemma timestampsPreSave_eq:
  "timestampsPreSave savedAt loaded a =
     a\<lparr>updatedAt := (if a \<noteq> loaded then savedAt else updatedAt a)\<rparr>"
  by (simp add: timestampsPreSave_def)

lemma timestampsPreSave_cases:
  "updatedAt (timestampsPreSave savedAt loaded a) = savedAt
   \<or> (a = loaded \<and> timestampsPreSave savedAt loaded a = loaded)"
  by (simp add: timestampsPreSave_def)

lemma timestampsPreSave_fields:
  "docId (timestampsPreSave savedAt loaded a) = docId a"
  "title (timestampsPreSave savedAt loaded a) = title a"
  "content (timestampsPreSave savedAt loaded a) = content a"
  "status (timestampsPreSave savedAt loaded a) = status a"
  "wordCount (timestampsPreSave savedAt loaded a) = wordCount a"
  "regeneratedAt (timestampsPreSave savedAt loaded a) = regeneratedAt a"
  by (simp_all add: timestampsPreSave_def)


text \<open>The regenerate route on an article that the caller owns.\<close>

lemma regenerateRoute_success:
  assumes "findOne store articleId uid = Some a"
    and "generateArticle chat (topic a) (niche a)
            (Some (case reqWritingStyle body of Some ws \<Rightarrow> ws | None \<Rightarrow> writingStyle a))
            (if truthyInt (reqWordCount body) then the (reqWordCount body) else wordCount a)
            (Some (if truthyStr (reqTone body) then the (reqTone body) else tone a))
            (reqCustomPrompt body) = Inr g"
    and "assigned = a\<lparr>title := trim (genTitle g), content := genContent g,
              writingStyle := (case reqWritingStyle body of Some ws \<Rightarrow> ws | None \<Rightarrow> writingStyle a),
              wordCount := genWordCount g,
              tone := (if truthyStr (reqTone body) then the (reqTone body) else tone a),
              updatedAt := now1, regeneratedAt := Some now2\<rparr>"
    and "b = timestampsPreSave savedAt a assigned"
  shows "regenerateRoute chat accepts now1 now2 savedAt store uid articleId body =
           (if accepts assigned then (Inr b, store(articleId \<mapsto> b))
            else (Inl (HttpError 500 ''Failed to regenerate article''), store))"
proof -
  note found = findOne_SomeD[OF assms(1)]
  have wc: "genWordCount g = int (length (splitWhiteSpace (genContent g)))"
    using generateArticle_wordCount[OF assms(2)] .
  have cb: "content b = genContent g" and wb: "wordCount b = genWordCount g"
    by (simp_all add: assms(4) timestampsPreSave_fields assms(3))
  have hook: "preSaveArticle m b = b" for m
    unfolding preSaveArticle_def
    by (cases m) (simp_all add: cb wc[symmetric] wb[symmetric])
  have id: "docId b = articleId"
    using found by (simp add: assms(4) timestampsPreSave_fields assms(3))
  have "regenerateRoute chat accepts now1 now2 savedAt store uid articleId body =
          (case saveArticle accepts savedAt store a assigned of
             None \<Rightarrow> (Inl (HttpError 500 ''Failed to regenerate article''), store)
           | Some (saved, store') \<Rightarrow> (Inr saved, store'))"
    unfolding assms(3)
    by (simp add: regenerateRoute_def assms(1,2) assignTitle_def Let_def)
  then show ?thesis
    by (simp add: saveArticle_def assms(4)[symmetric] hook id Let_def)
qed

lemma regenerateRoute_found:
  assumes "findOne store articleId uid = Some a"
    and "regenerateRoute chat accepts now1 now2 savedAt store uid articleId body = (Inr a', store')"
  shows "\<exists>g::generated. a' = timestampsPreSave savedAt a
            (a\<lparr>title := trim (genTitle g), content := genContent g,
              writingStyle := (case reqWritingStyle body of Some ws \<Rightarrow> ws | None \<Rightarrow> writingStyle a),
              wordCount := genWordCount g,
              tone := (if truthyStr (reqTone body) then the (reqTone body) else tone a),
              updatedAt := now1, regeneratedAt := Some now2\<rparr>)
       \<and> store' = store(articleId \<mapsto> a')"
proof -
  let ?gen = "generateArticle chat (topic a) (niche a)
            (Some (case reqWritingStyle body of Some ws \<Rightarrow> ws | None \<Rightarrow> writingStyle a))
            (if truthyInt (reqWordCount body) then the (reqWordCount body) else wordCount a)
            (Some (if truthyStr (reqTone body) then the (reqTone body) else tone a))
            (reqCustomPrompt body)"
  obtain g where g: "?gen = Inr g"
    using assms(2) by (cases ?gen) (auto simp: regenerateRoute_def assms(1) Let_def)
  define assigned where "assigned = a\<lparr>title := trim (genTitle g), content := genContent g,
              writingStyle := (case reqWritingStyle body of Some ws \<Rightarrow> ws | None \<Rightarrow> writingStyle a),
              wordCount := genWordCount g,
              tone := (if truthyStr (reqTone body) then the (reqTone body) else tone a),
              updatedAt := now1, regeneratedAt := Some now2\<rparr>"
  define b where "b = timestampsPreSave savedAt a assigned"
  from regenerateRoute_success[OF assms(1) g assigned_def b_def, of accepts] assms(2)
  have "a' = b \<and> store' = store(articleId \<mapsto> a')"
    by (cases "accepts assigned") simp_all
  then show ?thesis unfolding b_def assigned_def by (rule exI[of _ g])
qed

text \<open>The example article, the example completion and the three example requests.\<close>

lemma exampleStore_found: "findOne exampleStore 7 1 = Some exampleArticle"
  by (simp add: findOne_def exampleStore_def exampleArticle_def)

lemma exampleArticle_accepted: "schemaAccepts exampleArticle"
  by code_simp

lemma exampleChat_generated:
  "generateArticle exampleChat tp nc ws wc tn cp = Inr exampleGenerated"
proof -
  have "parseGeneratedContent
          (''TITLE: New title\<newline>\<newline>CONTENT:\<newline>'' @ wordsOf 100 ''new'' @ ''\<newline>'')
          = \<lparr> parsedTitle = ''New title'', parsedContent = wordsOf 100 ''new'' \<rparr>"
    by code_simp
  moreover have "int (length (splitWhiteSpace (wordsOf 100 ''new''))) = 100"
    by code_simp
  ultimately show ?thesis
    by (simp add: generateArticle_def exampleChat_def exampleGenerated_def)
qed

lemma exampleRegenerate:
  "regenerateRoute exampleChat schemaAccepts 200 201 202 exampleStore 1 7 emptyRegenerateBody =
     (Inr regeneratedExample, exampleStore(7 \<mapsto> regeneratedExample))"
proof -
  define assigned where "assigned = exampleArticle\<lparr>title := trim (genTitle exampleGenerated),
          content := genContent exampleGenerated,
          writingStyle := (case reqWritingStyle emptyRegenerateBody of
                             Some ws \<Rightarrow> ws | None \<Rightarrow> writingStyle exampleArticle),
          wordCount := genWordCount exampleGenerated,
          tone := (if truthyStr (reqTone emptyRegenerateBody)
                   then the (reqTone emptyRegenerateBody) else tone exampleArticle),
          updatedAt := 200, regeneratedAt := Some 201\<rparr>"
  have t: "trim ''New title'' = ''New title''" by code_simp
  have asg: "assigned = exampleArticle\<lparr>title := ''New title'', content := wordsOf 100 ''new'',
                          wordCount := 100, updatedAt := 200, regeneratedAt := Some 201\<rparr>"
    unfolding assigned_def
    by (intro article.equality)
       (simp_all add: t exampleGenerated_def emptyRegenerateBody_def truthyStr_def)
  have "regeneratedAt assigned \<noteq> regeneratedAt exampleArticle"
    by (simp add: asg exampleArticle_def)
  then have modified: "assigned \<noteq> exampleArticle" by auto
  have stamped: "timestampsPreSave 202 exampleArticle assigned = assigned\<lparr>updatedAt := 202\<rparr>"
    by (simp add: timestampsPreSave_def modified)
  have b: "regeneratedExample = timestampsPreSave 202 exampleArticle assigned"
    unfolding stamped regeneratedExample_def
    by (intro article.equality) (simp_all add: asg)
  have acc: "schemaAccepts assigned" unfolding asg by code_simp
  from regenerateRoute_success[OF exampleStore_found exampleChat_generated assigned_def b,
      of schemaAccepts]
  show ?thesis by (simp add: acc)
qed



text \<open>
  C3. A successful regenerate of an article that the caller owns leaves its id,
  \<open>createdAt\<close>, topic, niche, images, \<open>blogPost\<close> and analytics as they were. The
  regenerated article differs from the loaded one in \<open>title\<close>, \<open>content\<close>,
  \<open>wordCount\<close>, \<open>tone\<close>, \<open>writingStyle\<close>, \<open>updatedAt\<close> and \<open>regeneratedAt\<close> at most:
  putting the old values of these seven fields back gives the loaded article.
  \<open>regeneratedAt\<close> is the second clock reading of the route; \<open>updatedAt\<close> is the
  reading that \<^verbatim>\<open>save\<close> takes, unless the regenerated article is the loaded one; and
  the regenerated article replaces the stored one.
\<close>

theorem regenerate_preserves_identity:
  assumes "findOne store articleId uid = Some a"
    and "regenerateRoute chat accepts now1 now2 savedAt store uid articleId body = (Inr a', store')"
  shows "docId a' = docId a \<and> createdAt a' = createdAt a \<and> topic a' = topic a \<and> niche a' = niche a
       \<and> images a' = images a \<and> blogPost a' = blogPost a \<and> analytics a' = analytics a
       \<and> a'\<lparr>title := title a, content := content a, wordCount := wordCount a, tone := tone a,
              writingStyle := writingStyle a, updatedAt := updatedAt a,
              regeneratedAt := regeneratedAt a\<rparr> = a
       \<and> (updatedAt a' = savedAt \<or> a' = a) \<and> regeneratedAt a' = Some now2
       \<and> store' = store(articleId \<mapsto> a')"
proof -
  from regenerateRoute_found[OF assms] obtain g :: generated where
    a': "a' = timestampsPreSave savedAt a
            (a\<lparr>title := trim (genTitle g), content := genContent g,
              writingStyle := (case reqWritingStyle body of Some ws \<Rightarrow> ws | None \<Rightarrow> writingStyle a),
              wordCount := genWordCount g,
              tone := (if truthyStr (reqTone body) then the (reqTone body) else tone a),
              updatedAt := now1, regeneratedAt := Some now2\<rparr>)"
    and st: "store' = store(articleId \<mapsto> a')" by (elim exE conjE)
  have frame: "a'\<lparr>title := title a, content := content a, wordCount := wordCount a, tone := tone a,
              writingStyle := writingStyle a, updatedAt := updatedAt a,
              regeneratedAt := regeneratedAt a\<rparr> = a"
    unfolding a' timestampsPreSave_eq by (rule article.equality) simp_all
  have kept: "docId a' = docId a" "createdAt a' = createdAt a" "topic a' = topic a"
    "niche a' = niche a" "images a' = images a" "blogPost a' = blogPost a"
    "analytics a' = analytics a"
    unfolding a' timestampsPreSave_eq by simp_all
  have stamp: "updatedAt a' = savedAt \<or> a' = a"
    unfolding a' using timestampsPreSave_cases by blast
  have regen: "regeneratedAt a' = Some now2"
    unfolding a' timestampsPreSave_eq by simp
  from kept frame stamp regen st show ?thesis by (intro conjI)
qed

theorem regenerate_preserves_identity_witness:
  "findOne exampleStore 7 1 = Some exampleArticle
   \<and> regenerateRoute exampleChat schemaAccepts 200 201 202 exampleStore 1 7 emptyRegenerateBody =
       (Inr regeneratedExample, exampleStore(7 \<mapsto> regeneratedExample))
   \<and> docId regeneratedExample = docId exampleArticle
   \<and> createdAt regeneratedExample = createdAt exampleArticle
   \<and> images regeneratedExample = images exampleArticle
   \<and> blogPost regeneratedExample = blogPost exampleArticle
   \<and> analytics regeneratedExample = analytics exampleArticle
   \<and> updatedAt regeneratedExample = 202
   \<and> regeneratedAt regeneratedExample = Some 201"
proof -
  note inst = regenerate_preserves_identity[OF exampleStore_found exampleRegenerate]
  have u: "updatedAt regeneratedExample = 202"
    by (simp add: regeneratedExample_def)
  from inst exampleStore_found exampleRegenerate u show ?thesis
    by simp
qed





section \<open>Properties of the prompt builder\<close>

lemma append_if_distrib: "(if c then p @ x else p) = p @ (if c then x else [])"
  by simp

lemma concat_map_filter: "concat (map f (filter P xs)) = concat (map (\<lambda>x. if P x then f x else []) xs)"
  by (induction xs) simp_all

lemma styleLine_str:
  "(if isTruthy (map_option StrVal v) then styleLine (l, map_option StrVal v) else []) =
   (if truthyStr v then ''\<newline>- '' @ l @ '': '' @ showStr v else [])"
  by (cases v) (simp_all add: styleLine_def truthyStr_def showStr_def)

lemma styleLine_bool:
  "(if isTruthy (map_option BoolVal v) then styleLine (l, map_option BoolVal v) else []) =
   (if truthyBool v then ''\<newline>- '' @ l @ '': '' @ showBool v else [])"
  by (cases v) (simp_all add: styleLine_def truthyBool_def showBool_def)

lemma styleBlock_truthy:
  "styleBlock isTruthy (Some ws) =
     ''\<newline>\<newline>Writing Style:''
     @ (if truthyStr (voice ws) then ''\<newline>- '' @ ''Voice'' @ '': '' @ showStr (voice ws) else [])
     @ (if truthyStr (complexity ws) then ''\<newline>- '' @ ''Complexity'' @ '': '' @ showStr (complexity ws) else [])
     @ (if truthyStr (styleStructure ws) then ''\<newline>- '' @ ''Structure'' @ '': '' @ showStr (styleStructure ws) else [])
     @ (if truthyBool (examples ws) then ''\<newline>- '' @ ''Include examples'' @ '': '' @ showBool (examples ws) else [])
     @ (if truthyBool (quotes ws) then ''\<newline>- '' @ ''Include quotes'' @ '': '' @ showBool (quotes ws) else [])
     @ (if truthyBool (callToAction ws) then ''\<newline>- '' @ ''Call to action'' @ '': '' @ showBool (callToAction ws) else [])"
  unfolding styleBlock_def option.case concat_map_filter styleFields_def list.map concat.simps
    snd_conv styleLine_str styleLine_bool
  by (simp only: append_Nil2 append_assoc)

lemma toneClause_eq:
  "toneClause tn = (if truthyStr tn then ''\<newline>\<newline>Tone: Write in a '' @ showStr tn @ '' tone.'' else [])"
  by (cases tn) (simp_all add: toneClause_def truthyStr_def showStr_def)

lemma customClause_eq:
  "customClause cp = (if truthyStr cp then ''\<newline>\<newline>Additional Instructions: '' @ showStr cp else [])"
  by (cases cp) (simp_all add: customClause_def truthyStr_def showStr_def)

lemma buildArticlePrompt_steps:
  "buildArticlePrompt tp nc style wc tn cp =
     baseInstruction wc tp nc
     @ (if truthyStr tn then ''\<newline>\<newline>Tone: Write in a '' @ showStr tn @ '' tone.'' else [])
     @ (case style of None \<Rightarrow> []
        | Some ws \<Rightarrow> ''\<newline>\<newline>Writing Style:''
     @ (if truthyStr (voice ws) then ''\<newline>- '' @ ''Voice'' @ '': '' @ showStr (voice ws) else [])
     @ (if truthyStr (complexity ws) then ''\<newline>- '' @ ''Complexity'' @ '': '' @ showStr (complexity ws) else [])
     @ (if truthyStr (styleStructure ws) then ''\<newline>- '' @ ''Structure'' @ '': '' @ showStr (styleStructure ws) else [])
     @ (if truthyBool (examples ws) then ''\<newline>- '' @ ''Include examples'' @ '': '' @ showBool (examples ws) else [])
     @ (if truthyBool (quotes ws) then ''\<newline>- '' @ ''Include quotes'' @ '': '' @ showBool (quotes ws) else [])
     @ (if truthyBool (callToAction ws) then ''\<newline>- '' @ ''Call to action'' @ '': '' @ showBool (callToAction ws) else []))
     @ (if truthyStr cp then ''\<newline>\<newline>Additional Instructions: '' @ showStr cp else [])
     @ formatInstruction"
proof (cases style)
  case None
  show ?thesis
    unfolding buildArticlePrompt_def None option.case append_if_distrib Let_def baseInstruction_def
    by (simp only: append_assoc append_Nil)
next
  case (Some ws)
  show ?thesis
    unfolding buildArticlePrompt_def Some option.case append_if_distrib Let_def baseInstruction_def
    by (simp only: append_assoc append_Nil append_Cons)
qed

text \<open>
  C8, as the code has it. The prompt is the base instruction naming word count, topic
  and niche, then the tone clause when the tone is a non-empty string, then, when a
  style is given, the heading \<^verbatim>\<open>Writing Style:\<close> with one line for each truthy style
  field in the order voice, complexity, structure, examples, quotes, callToAction (a
  field that is absent, an empty string or \<^verbatim>\<open>false\<close> has no line), then the
  custom-instructions clause when it is a non-empty string, then the fixed
  output-format instruction. As a function of its six arguments the prompt is the same
  for the same arguments.
\<close>

theorem buildArticlePrompt_in_order:
  "buildArticlePrompt tp nc style wc tn cp = promptInOrder isTruthy tp nc style wc tn cp"
proof (cases style)
  case None
  show ?thesis
    unfolding buildArticlePrompt_steps promptInOrder_def toneClause_eq customClause_eq None
    by (simp only: styleBlock_def option.case)
next
  case (Some ws)
  show ?thesis
    unfolding buildArticlePrompt_steps promptInOrder_def toneClause_eq customClause_eq Some
      styleBlock_truthy option.case
    by (rule refl)
qed


text \<open>
  C8 as stated fails for a style in which \<open>quotes\<close> is present with the value
  \<^verbatim>\<open>false\<close> (the default of the User model): the field is present and has no line.
\<close>

theorem buildArticlePrompt_in_order_counterexample:
  "isPresent (map_option BoolVal (quotes (writingStyle exampleArticle)))
   \<and> buildArticlePrompt ''Solar power'' ''science'' (Some (writingStyle exampleArticle)) 500
         (Some ''friendly'') None
       \<noteq> specArticlePrompt ''Solar power'' ''science'' (Some (writingStyle exampleArticle)) 500
           (Some ''friendly'') None"
  by code_simp

section \<open>Properties of the topic and image aggregators\<close>

lemma sliceTo_Nil: "sliceTo k [] = []"
  by (simp add: sliceTo_def)

lemma removeDuplicates_Nil: "removeDuplicates [] = []"
  by (simp add: removeDuplicates_def)



text \<open>
  The bodies of the two operations on outcomes that are a total failure: the trending
  operation returns the fallback value when a call throws and the empty list when every
  call returns the empty list; the search operation returns the empty list.
\<close>

lemma trending_total_failure:
  assumes "totalFailure (trendingOutcomes env g nw r tw)"
  shows "getTrendingTopicsFrom env g nw r tw n =
           (if list_ex threw (trendingOutcomes env g nw r tw) then getFallbackTopics n
            else TopicList [])"
  using assms
  by (cases g; cases nw; cases r; cases tw)
     (auto simp: totalFailure_def trendingOutcomes_def failedOrEmpty_def threw_def
        getTrendingTopicsFrom_def sliceTo_Nil removeDuplicates_Nil split: if_splits)

lemma search_total_failure:
  assumes "totalFailure (searchOutcomes env nw r)"
  shows "searchTopicsFrom env nw r limit = []"
  using assms
  by (cases nw; cases r)
     (auto simp: totalFailure_def searchOutcomes_def failedOrEmpty_def
        searchTopicsFrom_def sliceTo_Nil removeDuplicates_Nil split: if_splits)


lemma searchTopics_providers_not_failed:
  "\<not> totalFailure (searchOutcomes env (Inr (newsTopicsOf newsResponse))
        (Inr (searchRedditTopics keyword n limit)))"
  by (simp add: totalFailure_def searchOutcomes_def failedOrEmpty_def searchRedditTopics_def)




text \<open>Deduplication: the keys of the kept items are new, and pairwise different.\<close>

lemma filterUnseen_keys_unseen:
  "key ` set (filterUnseen key seen xs) \<inter> seen = {}"
  by (induction xs arbitrary: seen) (auto simp: Let_def)

lemma filterUnseen_distinct:
  "distinct (map key (filterUnseen key seen xs))"
proof (induction xs arbitrary: seen)
  case Nil
  show ?case by simp
next
  case (Cons x xs)
  have "key x \<notin> key ` set (filterUnseen key (insert (key x) seen) xs)"
    using filterUnseen_keys_unseen[of key "insert (key x) seen" xs] by auto
  then show ?case using Cons.IH by (simp add: Let_def)
qed

text \<open>The item kept for a key is the first item of the input with that key.\<close>

lemma filterUnseen_find:
  "find (\<lambda>x. key x = k) (filterUnseen key seen xs) =
     (if k \<in> seen then None else find (\<lambda>x. key x = k) xs)"
proof (induction xs arbitrary: seen)
  case Nil
  show ?case by simp
next
  case (Cons x xs)
  show ?case by (auto simp: Let_def Cons.IH)
qed

lemma distinct_map_take: "distinct (map f xs) \<Longrightarrow> distinct (map f (take m xs))"
proof -
  assume "distinct (map f xs)"
  then have "distinct (take m (map f xs))" by (rule distinct_take)
  then show ?thesis by (simp add: take_map)
qed

text \<open>
  C6. In the output of \<^verbatim>\<open>removeDuplicates\<close> no two topics have the same title, and
  the topic with a given title is the first topic of the input with that title; the
  same holds for \<^verbatim>\<open>removeDuplicateImages\<close> and the url. When no provider call
  throws, the trending result is the deduplicated concatenation of the provider results
  in the order of the calls, cut to its first 20 items, and the search result is
  \<^verbatim>\<open>slice(0, limit)\<close> of the deduplicated concatenation, which has at most \<open>limit\<close>
  items when the limit is not negative.
\<close>

theorem aggregator_dedupe_and_truncation:
  fixes ts :: "topic_item list" and imgs :: "image_item list"
  shows "distinct (map topicTitle (removeDuplicates ts))
       \<and> find (\<lambda>t. topicTitle t = k) (removeDuplicates ts) = find (\<lambda>t. topicTitle t = k) ts
       \<and> distinct (map imgUrl (removeDuplicateImages imgs))
       \<and> find (\<lambda>i. imgUrl i = u) (removeDuplicateImages imgs) = find (\<lambda>i. imgUrl i = u) imgs
       \<and> getTrendingTopicsFrom env (Inr g) (Inr nw) (Inr r) (Inr tw) n =
           TopicList (take 20 (removeDuplicates
             (configuredResults (truthyStr (GOOGLE_TRENDS_API_KEY env)) g
                @ configuredResults (truthyStr (NEWS_API_KEY env)) nw @ r @ tw)))
       \<and> distinct (map topicTitle (take 20 (removeDuplicates
             (configuredResults (truthyStr (GOOGLE_TRENDS_API_KEY env)) g
                @ configuredResults (truthyStr (NEWS_API_KEY env)) nw @ r @ tw))))
       \<and> length (take 20 (removeDuplicates
             (configuredResults (truthyStr (GOOGLE_TRENDS_API_KEY env)) g
                @ configuredResults (truthyStr (NEWS_API_KEY env)) nw @ r @ tw))) \<le> 20
       \<and> searchTopicsFrom env (Inr nw) (Inr r) limit =
           sliceTo limit (removeDuplicates
             (configuredResults (truthyStr (NEWS_API_KEY env)) nw @ r))
       \<and> distinct (map topicTitle (searchTopicsFrom env (Inr nw) (Inr r) limit))
       \<and> (0 \<le> limit \<longrightarrow> length (searchTopicsFrom env (Inr nw) (Inr r) limit) \<le> nat limit)"
proof -
  have t: "getTrendingTopicsFrom env (Inr g) (Inr nw) (Inr r) (Inr tw) n =
           TopicList (take 20 (removeDuplicates
             (configuredResults (truthyStr (GOOGLE_TRENDS_API_KEY env)) g
                @ configuredResults (truthyStr (NEWS_API_KEY env)) nw @ r @ tw)))"
    by (simp add: getTrendingTopicsFrom_def configuredResults_def sliceTo_def)
  have s: "searchTopicsFrom env (Inr nw) (Inr r) limit =
           sliceTo limit (removeDuplicates
             (configuredResults (truthyStr (NEWS_API_KEY env)) nw @ r))"
    by (simp add: searchTopicsFrom_def configuredResults_def)
  have d: "distinct (map topicTitle (removeDuplicates xs))" for xs
    unfolding removeDuplicates_def by (rule filterUnseen_distinct)
  have d1: "distinct (map topicTitle (removeDuplicates ts))"
    by (rule d)
  have f1: "find (\<lambda>t. topicTitle t = k) (removeDuplicates ts) = find (\<lambda>t. topicTitle t = k) ts"
    unfolding removeDuplicates_def filterUnseen_find by simp
  have d2: "distinct (map imgUrl (removeDuplicateImages imgs))"
    unfolding removeDuplicateImages_def by (rule filterUnseen_distinct)
  have f2: "find (\<lambda>i. imgUrl i = u) (removeDuplicateImages imgs) = find (\<lambda>i. imgUrl i = u) imgs"
    unfolding removeDuplicateImages_def filterUnseen_find by simp
  have dt: "distinct (map topicTitle (take 20 (removeDuplicates
             (configuredResults (truthyStr (GOOGLE_TRENDS_API_KEY env)) g
                @ configuredResults (truthyStr (NEWS_API_KEY env)) nw @ r @ tw))))"
    by (rule distinct_map_take[OF d])
  have l1: "length (take 20 (removeDuplicates
             (configuredResults (truthyStr (GOOGLE_TRENDS_API_KEY env)) g
                @ configuredResults (truthyStr (NEWS_API_KEY env)) nw @ r @ tw))) \<le> 20"
    by simp
  have ds: "distinct (map topicTitle (searchTopicsFrom env (Inr nw) (Inr r) limit))"
    unfolding s sliceTo_def using distinct_map_take[OF d] by simp
  have l2: "0 \<le> limit \<longrightarrow> length (searchTopicsFrom env (Inr nw) (Inr r) limit) \<le> nat limit"
    unfolding s by (simp add: sliceTo_def)
  from d1 f1 d2 f2 t dt l1 s ds l2 show ?thesis by (intro conjI)
qed

theorem aggregator_dedupe_and_truncation_witness:
  "(0::int) \<le> 1
   \<and> length (searchTopics newsKeyOnly (Inr exampleNews) ''chips'' (Some ''technology'') 1) \<le> 1
   \<and> distinct (map topicTitle (removeDuplicates (newsTopicsOf (Inr (exampleNews @ exampleNews)))))"
proof -
  note inst = aggregator_dedupe_and_truncation[of "newsTopicsOf (Inr (exampleNews @ exampleNews))"
      _ _ _ newsKeyOnly _ "newsTopicsOf (Inr exampleNews)"
      "searchRedditTopics ''chips'' (Some ''technology'') 1" _ _ 1]
  have a: "distinct (map topicTitle (removeDuplicates
                        (newsTopicsOf (Inr (exampleNews @ exampleNews)))))"
    by (rule inst[THEN conjunct1])
  have "(0::int) \<le> 1 \<longrightarrow>
      length (searchTopicsFrom newsKeyOnly (Inr (newsTopicsOf (Inr exampleNews)))
                (Inr (searchRedditTopics ''chips'' (Some ''technology'') 1)) 1) \<le> nat 1"
    by (rule inst[THEN conjunct2, THEN conjunct2, THEN conjunct2, THEN conjunct2, THEN conjunct2,
          THEN conjunct2, THEN conjunct2, THEN conjunct2, THEN conjunct2])
  then have b: "length (searchTopics newsKeyOnly (Inr exampleNews) ''chips'' (Some ''technology'') 1)
                  \<le> 1"
    by (simp add: searchTopics_def)
  from a b show ?thesis by simp
qed

text \<open>
  C6 as stated fails for a negative limit: \<^verbatim>\<open>slice(0, -1)\<close> counts from the end and
  drops the last item only. With two articles from the News API and the simulated
  community item, a search with limit \<open>-1\<close> returns two topics.
\<close>

theorem aggregator_dedupe_and_truncation_counterexample:
  "length (searchTopics newsKeyOnly (Inr exampleNews) ''chips'' (Some ''technology'') (- 1)) = 2
   \<and> \<not> int (length (searchTopics newsKeyOnly (Inr exampleNews) ''chips'' (Some ''technology'')
                      (- 1))) \<le> - 1"
proof -
  have "length (searchTopics newsKeyOnly (Inr exampleNews) ''chips'' (Some ''technology'') (- 1)) = 2"
    by (simp add: searchTopics_def searchTopicsFrom_def newsKeyOnly_def truthyStr_def
          newsTopicsOf_def exampleNews_def searchRedditTopics_def plainTopic_def showStr_def
          removeDuplicates_def sliceTo_def Let_def)
  then show ?thesis by simp
qed

section \<open>Properties of the publisher\<close>

text \<open>
  C5, as the code has it. The connection test translates a failed request into one of
  the three fixed messages by its status: 401 into the invalid-credentials message, 404
  into the REST-API message, everything else into the connection-failure message. The
  update, delete and list operations do not look at the status: each translates every
  failed request into one fixed message of its own, which the update and delete routes
  report with status 400 and the list route replaces by its own message with status
  500.
\<close>

theorem publisher_failure_messages:
  "testWordPressConnection (Inl e) = Inl (classifiedMessage e)
   \<and> updateWordPressPost (Inl e) = Inl ''Failed to update WordPress post''
   \<and> updatePostRoute True (Inl e) = Inl (HttpError 400 ''Failed to update WordPress post'')
   \<and> deleteWordPressPost (Inl e) = Inl ''Failed to delete WordPress post''
   \<and> deletePostRoute True (Inl e) = Inl (HttpError 400 ''Failed to delete WordPress post'')
   \<and> getWordPressPosts (Inl e) = Inl ''Failed to fetch posts from WordPress''
   \<and> listPostsRoute True (Inl e) = Inl (HttpError 500 ''Failed to fetch blog posts'')"
  by (cases e)
     (simp_all add: testWordPressConnection_def classifiedMessage_def responseStatus_def
        updateWordPressPost_def updatePostRoute_def deleteWordPressPost_def deletePostRoute_def
        getWordPressPosts_def listPostsRoute_def)

text \<open>
  C5 as stated fails for each of the three operations: a request that fails with status
  401 is not answered with the invalid-credentials message.
\<close>

theorem publisher_failure_messages_counterexample:
  "updateWordPressPost (Inl (HttpFailure 401) :: axios_error + unit) \<noteq> Inl invalidCredentialsMessage
   \<and> deleteWordPressPost (Inl (HttpFailure 401)) \<noteq> Inl invalidCredentialsMessage
   \<and> getWordPressPosts (Inl (HttpFailure 401) :: axios_error + unit) \<noteq> Inl invalidCredentialsMessage
   \<and> classifiedMessage (HttpFailure 401) = invalidCredentialsMessage"
  by (simp add: updateWordPressPost_def deleteWordPressPost_def getWordPressPosts_def
        classifiedMessage_def invalidCredentialsMessage_def)

section \<open>Properties of registration\<close>

text \<open>
  C9. A registration that creates a user stores, as the password of that user, the
  hash of the hash of the submitted password: the route assigns the hash of the
  submitted password, the assignment leaves the path \<open>password\<close> modified, and the
  pre-save hook hashes the assigned value again. For a hash that is injective on
  messages for the second salt and does not return the submitted password for the
  first, the stored value is not the hash of the submitted password.
\<close>

theorem register_hashes_twice:
  assumes "registerRoute bcryptHash salt1 salt2 sign accepts newId existing body
             = (Inr response, stored)"
  shows "\<exists>u. stored = Some u
       \<and> password u = bcryptHash (bcryptHash (reqPassword body) salt1) salt2
       \<and> ''password'' \<in> snd (assignPassword
            (newUser newId (reqUsername body) (reqEmail body) (reqPassword body))
            (bcryptHash (reqPassword body) salt1))
       \<and> ((\<forall>x y. bcryptHash x salt2 = bcryptHash y salt2 \<longrightarrow> x = y)
            \<and> bcryptHash (reqPassword body) salt1 \<noteq> reqPassword body
            \<longrightarrow> password u \<noteq> bcryptHash (reqPassword body) salt2)"
proof -
  define u where "u = \<lparr> userDocId = newId, username = trim (reqUsername body),
       email = toLowerCase (trim (reqEmail body)),
       password = bcryptHash (bcryptHash (reqPassword body) salt1) salt2 \<rparr>"
  have stored: "stored = Some u"
    using assms
    by (auto simp: registerRoute_def newUser_def assignPassword_def preSaveUser_def u_def Let_def
          split: option.splits if_splits)
  have pw: "password u = bcryptHash (bcryptHash (reqPassword body) salt1) salt2"
    by (simp add: u_def)
  have modified: "''password'' \<in> snd (assignPassword
            (newUser newId (reqUsername body) (reqEmail body) (reqPassword body))
            (bcryptHash (reqPassword body) salt1))"
    by (simp add: assignPassword_def newUser_def)
  have twice: "(\<forall>x y. bcryptHash x salt2 = bcryptHash y salt2 \<longrightarrow> x = y)
            \<and> bcryptHash (reqPassword body) salt1 \<noteq> reqPassword body
            \<longrightarrow> password u \<noteq> bcryptHash (reqPassword body) salt2"
    unfolding pw by metis
  from stored pw modified twice show ?thesis by (intro exI[of _ u] conjI)
qed

lemma exampleRegister:
  "registerRoute toyHash ''s1'' ''s2'' (\<lambda>i. ''token'') lengthsAccepted 1 None exampleRegistration
     = (Inr (''token'', 1), Some exampleUser)"
proof -
  have "trim ''ada'' = ''ada''" by code_simp
  moreover have "toLowerCase (trim ''Ada@example.org'') = ''ada@example.org''" by code_simp
  ultimately show ?thesis
    by (simp add: registerRoute_def newUser_def assignPassword_def preSaveUser_def
          exampleRegistration_def exampleUser_def lengthsAccepted_def toyHash_def Let_def)
qed

theorem register_hashes_twice_witness:
  "registerRoute toyHash ''s1'' ''s2'' (\<lambda>i. ''token'') lengthsAccepted 1 None exampleRegistration
     = (Inr (''token'', 1), Some exampleUser)
   \<and> password exampleUser = toyHash (toyHash ''secret1'' ''s1'') ''s2''
   \<and> password exampleUser \<noteq> toyHash ''secret1'' ''s2''"
proof -
  from register_hashes_twice[OF exampleRegister] obtain u where
    s: "Some exampleUser = Some u"
    and p: "password u = toyHash (toyHash (reqPassword exampleRegistration) ''s1'') ''s2''"
    by (elim exE conjE)
  from s have u: "u = exampleUser" by simp
  have p': "password exampleUser = toyHash (toyHash ''secret1'' ''s1'') ''s2''"
    using p unfolding u by (simp add: exampleRegistration_def)
  have q: "password exampleUser \<noteq> toyHash ''secret1'' ''s2''"
    unfolding p' by (simp add: toyHash_def)
  from exampleRegister p' q show ?thesis by (intro conjI)
qed

end
